theory Spec2Isabelle
  imports Complex_Main
begin

section \<open>JavaScript values used by the audio engine\<close>

text \<open>
  The engine of \<^verbatim>\<open>src/index.js\<close> computes with JavaScript numbers, \<^verbatim>\<open>null\<close> and
  \<^verbatim>\<open>undefined\<close>. A finite number is modelled by an exact real (the rounding of IEEE
  doubles and the infinities are not modelled), \<^verbatim>\<open>NaN\<close> by a constructor of its own.
\<close>

datatype jsval = Num real | NaN | Null | Undefined

text \<open>\<^verbatim>\<open>ToNumber\<close>: \<^verbatim>\<open>null\<close> converts to 0, \<^verbatim>\<open>undefined\<close> to NaN (here \<open>None\<close>).\<close>

fun ToNumber :: "jsval \<Rightarrow> real option" where
  "ToNumber (Num x) = Some x"
| "ToNumber NaN = None"
| "ToNumber Null = Some 0"
| "ToNumber Undefined = None"

text \<open>The relational operators on numbers: any comparison with NaN is false.\<close>

definition js_ge :: "jsval \<Rightarrow> jsval \<Rightarrow> bool" where
  "js_ge a b = (case ToNumber a of None \<Rightarrow> False
     | Some x \<Rightarrow> (case ToNumber b of None \<Rightarrow> False | Some y \<Rightarrow> y \<le> x))"

definition js_gt :: "jsval \<Rightarrow> jsval \<Rightarrow> bool" where
  "js_gt a b = (case ToNumber a of None \<Rightarrow> False
     | Some x \<Rightarrow> (case ToNumber b of None \<Rightarrow> False | Some y \<Rightarrow> y < x))"

definition js_sub :: "jsval \<Rightarrow> jsval \<Rightarrow> jsval" where
  "js_sub a b = (case ToNumber a of None \<Rightarrow> NaN
     | Some x \<Rightarrow> (case ToNumber b of None \<Rightarrow> NaN | Some y \<Rightarrow> Num (x - y)))"

text \<open>
  \<^verbatim>\<open>~~x\<close> is \<^verbatim>\<open>ToInt32\<close>: truncate toward zero, reduce modulo \<open>2^32\<close>, read as a signed
  32-bit integer.
\<close>

definition ToInt32 :: "real \<Rightarrow> int" where
  "ToInt32 x =
     (let n = (if x < 0 then \<lceil>x\<rceil> else \<lfloor>x\<rfloor>);
          m = n mod 4294967296
      in if 2147483648 \<le> m then m - 4294967296 else m)"

text \<open>
  \<^verbatim>\<open>fft[i]\<close> on an array of numbers: the element when \<open>i\<close> is an integer index inside
  the array, \<^verbatim>\<open>undefined\<close> otherwise (no exception).
\<close>

definition js_index :: "real list \<Rightarrow> real \<Rightarrow> jsval" where
  "js_index fft i =
     (if 0 \<le> i \<and> i < real (length fft) \<and> real_of_int \<lfloor>i\<rfloor> = i
      then Num (fft ! nat \<lfloor>i\<rfloor>) else Undefined)"

section \<open>User callbacks, events and completions\<close>

text \<open>
  A user callback is opaque: the model keeps only whether a call of it returns or throws,
  and records each call in a trace of events. A callback is taken not to touch the state of
  the engine. An absent callback (\<^verbatim>\<open>undefined\<close> or \<^verbatim>\<open>null\<close>) is \<open>None\<close>.
\<close>

datatype behaviour = Returns | Throws

type_synonym callback = "behaviour option"

datatype event =
    CbOnKick jsval
  | CbOffKick jsval
  | CbOnBeat
  | CbSection string
  | ConsoleLog string

text \<open>
  A method either completes normally or is left by an exception; in both cases the
  mutations done so far persist, so both completions carry the state
  (\<open>map_completion\<close> changes that state and keeps the kind of completion).
\<close>

datatype 'a completion = Normal 'a | Abrupt 'a

fun state_of :: "'a completion \<Rightarrow> 'a" where
  "state_of (Normal s) = s"
| "state_of (Abrupt s) = s"

fun is_Normal :: "'a completion \<Rightarrow> bool" where
  "is_Normal (Normal s) = True"
| "is_Normal (Abrupt s) = False"

section \<open>Kick: the onset detector\<close>

text \<open>
  \<^verbatim>\<open>frequency\<close> is a single number or a two-element array: \<^verbatim>\<open>!frequency.length\<close> holds
  for a number and fails for the array.
\<close>

datatype frequency_selector = Bin real | Band real real

record Kick =
  frequency :: frequency_selector
  threshold :: real
  decay :: real
  onKick :: callback
  offKick :: callback
  isOn :: bool
  isKick :: bool
  currentThreshold :: jsval

text \<open>The argument object of the constructor and of \<^verbatim>\<open>set\<close>: every field may be absent.\<close>

record Kick_config =
  cfg_frequency :: "frequency_selector option"
  cfg_threshold :: "real option"
  cfg_decay :: "real option"
  cfg_onKick :: callback
  cfg_offKick :: callback

definition Kick_new :: "Kick_config \<Rightarrow> Kick" where
  "Kick_new c =
     (let th = (case cfg_threshold c of Some t \<Rightarrow> t | None \<Rightarrow> 3 / 10)
      in \<lparr> frequency = (case cfg_frequency c of Some f \<Rightarrow> f | None \<Rightarrow> Band 0 10),
           threshold = th,
           decay = (case cfg_decay c of Some d \<Rightarrow> d | None \<Rightarrow> 2 / 100),
           onKick = cfg_onKick c,
           offKick = cfg_offKick c,
           isOn = False,
           isKick = False,
           currentThreshold = Num th \<rparr>)"

definition Kick_on :: "Kick \<Rightarrow> Kick" where
  "Kick_on k = k\<lparr>isOn := True\<rparr>"

definition Kick_off :: "Kick \<Rightarrow> Kick" where
  "Kick_off k = k\<lparr>isOn := False\<rparr>"

definition Kick_set :: "Kick_config \<Rightarrow> Kick \<Rightarrow> Kick" where
  "Kick_set c k =
     k\<lparr> frequency := (case cfg_frequency c of Some f \<Rightarrow> f | None \<Rightarrow> frequency k),
        threshold := (case cfg_threshold c of Some t \<Rightarrow> t | None \<Rightarrow> threshold k),
        decay := (case cfg_decay c of Some d \<Rightarrow> d | None \<Rightarrow> decay k),
        onKick := (case cfg_onKick c of Some f \<Rightarrow> Some f | None \<Rightarrow> onKick k),
        offKick := (case cfg_offKick c of Some f \<Rightarrow> Some f | None \<Rightarrow> offKick k) \<rparr>"

text \<open>
  The loop of \<^verbatim>\<open>maxAmplitude\<close> over a range: \<open>i\<close> runs from \<open>frequency[0]\<close> to
  \<open>frequency[1]\<close> in steps of one and \<open>max\<close> is raised whenever \<^verbatim>\<open>fft[i] > max\<close>
  (false when \<^verbatim>\<open>fft[i]\<close> is \<^verbatim>\<open>undefined\<close>).
\<close>

function maxAmplitude_loop :: "real list \<Rightarrow> real \<Rightarrow> real \<Rightarrow> real \<Rightarrow> real" where
  "maxAmplitude_loop fft i l mx =
     (if i \<le> l
      then maxAmplitude_loop fft (i + 1) l
             (if js_gt (js_index fft i) (Num mx)
              then (case js_index fft i of Num v \<Rightarrow> v | _ \<Rightarrow> mx) else mx)
      else mx)"
  by pat_completeness auto
termination
  by (relation "measure (\<lambda>(fft, i, l, mx). nat (\<lfloor>l - i\<rfloor> + 1))") (auto, linarith)

declare maxAmplitude_loop.simps [simp del]

fun maxAmplitude :: "real list \<Rightarrow> frequency_selector \<Rightarrow> jsval" where
  "maxAmplitude fft (Bin f) =
     (if f < real (length fft) then js_index fft (real_of_int (ToInt32 f)) else Null)"
| "maxAmplitude fft (Band a b) = Num (maxAmplitude_loop fft a b 0)"

text \<open>
  One call of a callback that may be absent, as in \<^verbatim>\<open>this.onKick && this.onKick(m)\<close>:
  the events of the call and whether the method goes on after it.
\<close>

fun invoke :: "callback \<Rightarrow> event \<Rightarrow> event list \<times> bool" where
  "invoke None e = ([], True)"
| "invoke (Some Returns) e = ([e], True)"
| "invoke (Some Throws) e = ([e], False)"

text \<open>The body of \<^verbatim>\<open>calc\<close> once the magnitude is known (lines 352 to 360).\<close>

definition Kick_detect :: "jsval \<Rightarrow> Kick \<Rightarrow> event list \<times> Kick completion" where
  "Kick_detect magnitude k =
     (if js_ge magnitude (currentThreshold k) \<and> js_ge magnitude (Num (threshold k))
      then
        (let k1 = k\<lparr>currentThreshold := magnitude\<rparr>
         in case invoke (onKick k1) (CbOnKick magnitude) of
              (es, True) \<Rightarrow> (es, Normal (k1\<lparr>isKick := True\<rparr>))
            | (es, False) \<Rightarrow> (es, Abrupt k1))
      else
        (case invoke (offKick k) (CbOffKick magnitude) of
           (es, True) \<Rightarrow>
             (es, Normal (k\<lparr>currentThreshold := js_sub (currentThreshold k) (Num (decay k)),
                             isKick := False\<rparr>))
         | (es, False) \<Rightarrow> (es, Abrupt k)))"

definition Kick_calc :: "real list \<Rightarrow> Kick \<Rightarrow> event list \<times> Kick completion" where
  "Kick_calc spectrum k =
     (if \<not> isOn k then ([], Normal k)
      else Kick_detect (maxAmplitude spectrum (frequency k)) k)"

section \<open>Beat: the metronome\<close>

record Beat =
  factor :: real
  onBeat :: callback
  beatOn :: bool
  currentTime :: real

text \<open>
  Field \<open>beatOn\<close> is \<^verbatim>\<open>isOn\<close> of class \<^verbatim>\<open>Beat\<close> (renamed apart from the field of
  \<open>Kick\<close>); \<open>currentTime\<close> is the accumulator the specification calls \<open>nextFireTime\<close>.
\<close>

record Beat_config =
  cfg_factor :: "real option"
  cfg_onBeat :: callback

definition Beat_new :: "Beat_config \<Rightarrow> Beat" where
  "Beat_new c =
     \<lparr> factor = (case cfg_factor c of Some f \<Rightarrow> f | None \<Rightarrow> 1),
       onBeat = cfg_onBeat c,
       beatOn = False,
       currentTime = 0 \<rparr>"

definition Beat_on :: "Beat \<Rightarrow> Beat" where
  "Beat_on b = b\<lparr>beatOn := True\<rparr>"


definition Beat_set :: "Beat_config \<Rightarrow> Beat \<Rightarrow> Beat" where
  "Beat_set c b =
     b\<lparr> factor := (case cfg_factor c of Some f \<Rightarrow> f | None \<Rightarrow> factor b),
        onBeat := (case cfg_onBeat c of Some f \<Rightarrow> Some f | None \<Rightarrow> onBeat b) \<rparr>"

definition Beat_calc :: "real \<Rightarrow> real \<Rightarrow> Beat \<Rightarrow> event list \<times> Beat completion" where
  "Beat_calc time bd b =
     (if time = 0 then ([], Normal b)
      else
        (let beatDurationFactored = bd * factor b
         in if currentTime b + beatDurationFactored \<le> time
            then
              (case (if beatOn b then invoke (onBeat b) CbOnBeat else ([], True)) of
                 (es, True) \<Rightarrow>
                   (es, Normal (b\<lparr>currentTime := currentTime b + beatDurationFactored\<rparr>))
               | (es, False) \<Rightarrow> (es, Abrupt b))
            else ([], Normal b)))"

section \<open>Sections: callbacks at specific times\<close>

text \<open>
  The four registration methods push an object with a \<^verbatim>\<open>condition\<close> closure and a
  \<^verbatim>\<open>callback\<close>. The closures differ only in the comparison and its bounds, which the
  constructor of \<open>section_kind\<close> keeps. Field \<open>called\<close> is read by the closure of
  \<^verbatim>\<open>onceAt\<close> alone.
\<close>

datatype section_kind = Before real | After real | Between real real | OnceAt real

record Section =
  label :: string
  kind :: section_kind
  callback :: callback
  called :: bool

text \<open>\<^verbatim>\<open>condition()\<close>, with \<open>t\<close> the value of \<^verbatim>\<open>_this.time\<close> at the call.\<close>

definition condition :: "real \<Rightarrow> Section \<Rightarrow> bool" where
  "condition t sec =
     (case kind sec of
        Before x \<Rightarrow> t < x
      | After x \<Rightarrow> x < t
      | Between a b \<Rightarrow> a < t \<and> t < b
      | OnceAt x \<Rightarrow> x < t \<and> \<not> called sec)"

text \<open>
  \<^verbatim>\<open>callback.call(this)\<close>. For \<^verbatim>\<open>onceAt\<close> the stored callback is the wrapper that logs,
  calls the user's callback and then sets \<^verbatim>\<open>called\<close>. Calling an absent callback is a
  TypeError.
\<close>

definition call_user :: "Section \<Rightarrow> event list \<times> bool" where
  "call_user sec =
     (case callback sec of
        None \<Rightarrow> ([], False)
      | Some f \<Rightarrow> invoke (Some f) (CbSection (label sec)))"

definition section_callback :: "Section \<Rightarrow> event list \<times> Section completion" where
  "section_callback sec =
     (case kind sec of
        OnceAt x \<Rightarrow>
          (case call_user sec of
             (es, True) \<Rightarrow> (ConsoleLog (label sec) # es, Normal (sec\<lparr>called := True\<rparr>))
           | (es, False) \<Rightarrow> (ConsoleLog (label sec) # es, Abrupt sec))
      | _ \<Rightarrow>
          (case call_user sec of
             (es, True) \<Rightarrow> (es, Normal sec)
           | (es, False) \<Rightarrow> (es, Abrupt sec)))"

text \<open>One iteration of the loop over \<^verbatim>\<open>_sections\<close> in \<^verbatim>\<open>onUpdate\<close>.\<close>

definition section_step :: "real \<Rightarrow> Section \<Rightarrow> event list \<times> Section completion" where
  "section_step t sec = (if condition t sec then section_callback sec else ([], Normal sec))"

section \<open>Sound: clock, registration and the frame pass\<close>

text \<open>
  A \<^verbatim>\<open>for\<close> loop over an array of objects, each updated in place: an exception leaves
  the loop, and the elements after the failing one are not visited.
\<close>

fun each :: "('a \<Rightarrow> event list \<times> 'a completion) \<Rightarrow> 'a list \<Rightarrow> event list \<times> 'a list completion"
  where
  "each f [] = ([], Normal [])"
| "each f (x # xs) =
     (case f x of
        (es, Abrupt x') \<Rightarrow> (es, Abrupt (x' # xs))
      | (es, Normal x') \<Rightarrow>
          (case each f xs of (es', r) \<Rightarrow> (es @ es', map_completion ((#) x') r)))"

text \<open>
  The fields of \<^verbatim>\<open>Sound\<close> that the clock and the frame pass use. \<open>req\<close> is the handle of
  the last frame request (\<open>None\<close> while \<^verbatim>\<open>undefined\<close>), \<open>sourceNode\<close> tells whether a
  buffer source is attached. \<open>pending\<close> and \<open>next_handle\<close> are the state of the host's
  frame scheduler: the requests made and not cancelled (the model does not take a request
  out when the host runs it), and the handle it gives next (handles are positive). The
  audio graph, the loader and the debug canvas are left out; the calls into the audio
  graph are taken not to fail.
\<close>

record Sound =
  bpm :: real
  beatDuration :: real
  offsetTime :: real
  sections :: "Section list"
  kicks :: "Kick list"
  beats :: "Beat list"
  startTime :: real
  pauseTime :: real
  isPlaying :: bool
  req :: "nat option"
  sourceNode :: bool
  pending :: "nat list"
  next_handle :: nat

text \<open>The constructor (for a tempo other than 0, where \<^verbatim>\<open>60 / bpm\<close> is finite).\<close>

definition Sound_new :: "real \<Rightarrow> real \<Rightarrow> Sound" where
  "Sound_new b off =
     \<lparr> bpm = b, beatDuration = 60 / b, offsetTime = off,
       sections = [], kicks = [], beats = [],
       startTime = 0, pauseTime = 0, isPlaying = False,
       req = None, sourceNode = False, pending = [], next_handle = 1 \<rparr>"

text \<open>The getter \<^verbatim>\<open>time\<close>, with \<open>now\<close> the reading of \<^verbatim>\<open>ctx.currentTime\<close>.\<close>

definition Sound_time :: "real \<Rightarrow> Sound \<Rightarrow> real" where
  "Sound_time now s = (if isPlaying s then now - startTime s else pauseTime s - startTime s)"

definition requestAnimationFrame :: "Sound \<Rightarrow> Sound" where
  "requestAnimationFrame s =
     s\<lparr> req := Some (next_handle s),
        pending := pending s @ [next_handle s],
        next_handle := Suc (next_handle s) \<rparr>"

text \<open>\<^verbatim>\<open>if (this.req) cancelAnimationFrame(this.req)\<close>; cancelling an unknown handle does nothing.\<close>

definition cancel_req :: "Sound \<Rightarrow> Sound" where
  "cancel_req s =
     (case req s of
        None \<Rightarrow> s
      | Some h \<Rightarrow> if h = 0 then s else s\<lparr>pending := removeAll h (pending s)\<rparr>)"

definition register :: "Section \<Rightarrow> Sound \<Rightarrow> Sound" where
  "register sec s = s\<lparr>sections := sections s @ [sec]\<rparr>"

definition before :: "string \<Rightarrow> real \<Rightarrow> callback \<Rightarrow> Sound \<Rightarrow> Sound" where
  "before l t cb = register \<lparr>label = l, kind = Before t, callback = cb, called = False\<rparr>"


definition between :: "string \<Rightarrow> real \<Rightarrow> real \<Rightarrow> callback \<Rightarrow> Sound \<Rightarrow> Sound" where
  "between l t0 t1 cb =
     register \<lparr>label = l, kind = Between t0 t1, callback = cb, called = False\<rparr>"

definition onceAt :: "string \<Rightarrow> real \<Rightarrow> callback \<Rightarrow> Sound \<Rightarrow> Sound" where
  "onceAt l t cb = register \<lparr>label = l, kind = OnceAt t, callback = cb, called = False\<rparr>"

text \<open>
  \<^verbatim>\<open>createKick\<close> and \<^verbatim>\<open>createBeat\<close> return the new object, which is also the last
  element of the array: the model returns its index, the handle by which the caller
  reaches it.
\<close>

definition createKick :: "Kick_config \<Rightarrow> Sound \<Rightarrow> nat \<times> Sound" where
  "createKick c s = (length (kicks s), s\<lparr>kicks := kicks s @ [Kick_new c]\<rparr>)"

definition createBeat :: "Beat_config \<Rightarrow> Sound \<Rightarrow> nat \<times> Sound" where
  "createBeat c s = (length (beats s), s\<lparr>beats := beats s @ [Beat_new c]\<rparr>)"

text \<open>
  \<^verbatim>\<open>onUpdate\<close>, with \<open>now\<close> the clock reading and \<open>spectrum\<close> the data that
  \<^verbatim>\<open>getSpectrum\<close> returns during this pass. The next frame is requested first; the three
  loops follow; no statement of the pass catches an exception.
\<close>

definition onUpdate :: "real \<Rightarrow> real list \<Rightarrow> Sound \<Rightarrow> event list \<times> Sound completion" where
  "onUpdate now spectrum s =
     (let s1 = requestAnimationFrame s
      in case each (section_step (Sound_time now s1)) (sections s1) of
           (e1, Abrupt secs) \<Rightarrow> (e1, Abrupt (s1\<lparr>sections := secs\<rparr>))
         | (e1, Normal secs) \<Rightarrow>
             (let s2 = s1\<lparr>sections := secs\<rparr>
              in case each (Kick_calc spectrum) (kicks s2) of
                   (e2, Abrupt ks) \<Rightarrow> (e1 @ e2, Abrupt (s2\<lparr>kicks := ks\<rparr>))
                 | (e2, Normal ks) \<Rightarrow>
                     (let s3 = s2\<lparr>kicks := ks\<rparr>;
                          time = max 0 (Sound_time now s3 - offsetTime s3)
                      in case each (Beat_calc time (beatDuration s3)) (beats s3) of
                           (e3, r) \<Rightarrow>
                             (e1 @ e2 @ e3, map_completion (\<lambda>bs. s3\<lparr>beats := bs\<rparr>) r))))"

definition play :: "real \<Rightarrow> real \<Rightarrow> real list \<Rightarrow> Sound \<Rightarrow> event list \<times> Sound completion" where
  "play offset now spectrum s =
     (case onUpdate now spectrum (cancel_req s) of
        (es, Abrupt s1) \<Rightarrow> (es, Abrupt s1)
      | (es, Normal s1) \<Rightarrow>
          (let s2 = s1\<lparr>isPlaying := True\<rparr>;
               elapseTime = pauseTime s2 - startTime s2 + offset
           in (es, Normal (s2\<lparr>startTime := now - elapseTime, sourceNode := True\<rparr>))))"

definition pause :: "real \<Rightarrow> Sound \<Rightarrow> Sound" where
  "pause now s = (cancel_req s)\<lparr>sourceNode := False, pauseTime := now, isPlaying := False\<rparr>"

section \<open>The application's first detector and runs of frames\<close>

text \<open>\<^verbatim>\<open>firstKicks\<close> as \<^verbatim>\<open>app()\<close> creates and enables it (lines 572 to 580).\<close>

definition firstKicks :: Kick where
  "firstKicks =
     Kick_on (Kick_new \<lparr> cfg_frequency = Some (Band 3 10), cfg_threshold = Some 230,
                         cfg_decay = Some 5, cfg_onKick = Some Returns, cfg_offKick = None \<rparr>)"

text \<open>
  A detector fed one spectrum per frame; after each frame the kick flag and the adaptive
  threshold are observed. The engine goes on with the state a frame leaves, however the
  frame completed.
\<close>

fun Kick_frames :: "real list list \<Rightarrow> Kick \<Rightarrow> (bool \<times> jsval) list" where
  "Kick_frames [] k = []"
| "Kick_frames (f # fs) k =
     (let k' = state_of (snd (Kick_calc f k))
      in (isKick k', currentThreshold k') # Kick_frames fs k')"


text \<open>
  A method called on the object that \<^verbatim>\<open>createKick\<close> or \<^verbatim>\<open>createBeat\<close> returned reaches the
  element of the array at the index the model returns (an index inside the array, as an
  element is never removed).
\<close>

definition Kick_at :: "nat \<Rightarrow> (Kick \<Rightarrow> Kick) \<Rightarrow> Sound \<Rightarrow> Sound" where
  "Kick_at i g s = s\<lparr>kicks := (kicks s)[i := g (kicks s ! i)]\<rparr>"

definition Beat_at :: "nat \<Rightarrow> (Beat \<Rightarrow> Beat) \<Rightarrow> Sound \<Rightarrow> Sound" where
  "Beat_at i g s = s\<lparr>beats := (beats s)[i := g (beats s ! i)]\<rparr>"

text \<open>
  An engine set up as \<^verbatim>\<open>app()\<close> starts to do: constructed for 100 beats per minute with an
  offset of one second, with the first detector and the first one-shot section (whose
  callback, which switches detectors in the application, is kept as one that returns).
\<close>

definition engine :: Sound where
  "engine =
     onceAt ''firstChangeKick'' 45 (Some Returns)
       (snd (createKick \<lparr> cfg_frequency = Some (Band 3 10), cfg_threshold = Some 230,
                          cfg_decay = Some 5, cfg_onKick = Some Returns, cfg_offKick = None \<rparr>
              (Sound_new 100 1)))"

text \<open>Engines in which the first callback of a loop throws and a second one follows.\<close>

definition two_sections :: Sound where
  "two_sections = before ''b'' 1 (Some Returns) (before ''a'' 1 (Some Throws) (Sound_new 100 1))"

definition two_kicks :: Sound where
  "two_kicks =
     Kick_at 1 Kick_on (Kick_at 0 Kick_on
       (snd (createKick \<lparr> cfg_frequency = Some (Bin 0), cfg_threshold = Some 1,
                          cfg_decay = Some 1, cfg_onKick = Some Returns, cfg_offKick = None \<rparr>
         (snd (createKick \<lparr> cfg_frequency = Some (Bin 0), cfg_threshold = Some 1,
                            cfg_decay = Some 1, cfg_onKick = Some Throws, cfg_offKick = None \<rparr>
           (before ''b'' 1 (Some Returns) (Sound_new 100 1)))))))"

definition two_beats :: Sound where
  "two_beats =
     state_of (snd (play 0 10 []
       (Beat_at 1 Beat_on (Beat_at 0 Beat_on
         (snd (createBeat \<lparr>cfg_factor = Some 1, cfg_onBeat = Some Returns\<rparr>
           (snd (createBeat \<lparr>cfg_factor = Some 1, cfg_onBeat = Some Throws\<rparr>
             (Sound_new 100 1)))))))))"










section \<open>Basic facts\<close>

lemma state_of_map [simp]: "state_of (map_completion g r) = g (state_of r)"
  by (cases r) simp_all

lemma is_Normal_map [simp]: "is_Normal (map_completion g r) = is_Normal r"
  by (cases r) simp_all

lemma Sound_time_request [simp]:
  "Sound_time now (requestAnimationFrame s) = Sound_time now s"
  "Sound_time now (s\<lparr>sections := secs\<rparr>) = Sound_time now s"
  "Sound_time now (s\<lparr>kicks := ks\<rparr>) = Sound_time now s"
  by (simp_all add: Sound_time_def requestAnimationFrame_def)

lemma requestAnimationFrame_fields [simp]:
  "sections (requestAnimationFrame s) = sections s"
  "kicks (requestAnimationFrame s) = kicks s"
  "beats (requestAnimationFrame s) = beats s"
  "offsetTime (requestAnimationFrame s) = offsetTime s"
  "beatDuration (requestAnimationFrame s) = beatDuration s"
  by (simp_all add: requestAnimationFrame_def)

section \<open>Properties of the detector\<close>

lemma invoke_fst:
  assumes "b \<noteq> Some Throws"
  shows "invoke b e = ((if b = None then [] else [e]), True)"
proof (cases b)
  case None
  then show ?thesis by simp
next
  case (Some a)
  with assms show ?thesis by (cases a) auto
qed

text \<open>
  Claim C1. An enabled Kick whose callbacks return, on a frame of magnitude \<open>m\<close>: when
  \<open>m \<ge> currentThreshold\<close> and \<open>m \<ge> threshold\<close> the frame is a kick, \<open>currentThreshold\<close>
  becomes \<open>m\<close> (which is not below its old value), \<open>onKick(m)\<close> is called if present and the
  kick flag is set; otherwise \<open>offKick(m)\<close> is called if present, \<open>currentThreshold\<close> loses
  \<open>decay\<close> with no clamp, and the flag is cleared; from a value at the floor
  \<open>threshold\<close> it falls below the floor. With threshold 230, decay 5 and the magnitudes
  300, 300, 250, 200 the flags are true, true, false, false and the thresholds 300, 300,
  295, 290.
\<close>

theorem Kick_calc_adaptive_threshold:
  assumes "isOn k" and "onKick k \<noteq> Some Throws" and "offKick k \<noteq> Some Throws"
  shows
    "(let m = maxAmplitude spectrum (frequency k)
      in if js_ge m (currentThreshold k) \<and> js_ge m (Num (threshold k))
         then Kick_calc spectrum k =
                ((if onKick k = None then [] else [CbOnKick m]),
                 Normal (k\<lparr>currentThreshold := m, isKick := True\<rparr>))
              \<and> js_ge m (currentThreshold k)
         else Kick_calc spectrum k =
                ((if offKick k = None then [] else [CbOffKick m]),
                 Normal (k\<lparr>currentThreshold := js_sub (currentThreshold k) (Num (decay k)),
                            isKick := False\<rparr>)))
     \<and> (threshold k = 230 \<and> decay k = 5 \<and> currentThreshold k = Num 230
        \<and> map (\<lambda>f. maxAmplitude f (frequency k)) fs = [Num 300, Num 300, Num 250, Num 200]
        \<longrightarrow> Kick_frames fs k =
              [(True, Num 300), (True, Num 300), (False, Num 295), (False, Num 290)])
     \<and> (currentThreshold k = Num c \<and> c \<le> threshold k \<and> 0 < decay k
        \<and> maxAmplitude spectrum (frequency k) = Num v \<and> v < threshold k
        \<longrightarrow> currentThreshold (state_of (snd (Kick_calc spectrum k))) = Num (c - decay k)
            \<and> c - decay k < threshold k)"
proof -
  have step: "Kick_calc f k' =
       (let m = maxAmplitude f (frequency k')
        in if js_ge m (currentThreshold k') \<and> js_ge m (Num (threshold k'))
           then ((if onKick k' = None then [] else [CbOnKick m]),
                 Normal (k'\<lparr>currentThreshold := m, isKick := True\<rparr>))
           else ((if offKick k' = None then [] else [CbOffKick m]),
                 Normal (k'\<lparr>currentThreshold := js_sub (currentThreshold k') (Num (decay k')),
                            isKick := False\<rparr>)))"
    if "isOn k'" "onKick k' \<noteq> Some Throws" "offKick k' \<noteq> Some Throws" for f k'
    using that by (simp add: Kick_calc_def Kick_detect_def Let_def invoke_fst)
  have general: "(let m = maxAmplitude spectrum (frequency k)
      in if js_ge m (currentThreshold k) \<and> js_ge m (Num (threshold k))
         then Kick_calc spectrum k =
                ((if onKick k = None then [] else [CbOnKick m]),
                 Normal (k\<lparr>currentThreshold := m, isKick := True\<rparr>))
              \<and> js_ge m (currentThreshold k)
         else Kick_calc spectrum k =
                ((if offKick k = None then [] else [CbOffKick m]),
                 Normal (k\<lparr>currentThreshold := js_sub (currentThreshold k) (Num (decay k)),
                            isKick := False\<rparr>)))"
    using step[OF assms, of spectrum] by (simp add: Let_def)
  have trace: "Kick_frames fs k =
              [(True, Num 300), (True, Num 300), (False, Num 295), (False, Num 290)]"
    if h: "threshold k = 230" "decay k = 5" "currentThreshold k = Num 230"
       "map (\<lambda>f. maxAmplitude f (frequency k)) fs = [Num 300, Num 300, Num 250, Num 200]"
  proof -
    from h(4) obtain f1 f2 f3 f4 where fs: "fs = [f1, f2, f3, f4]"
      and m: "maxAmplitude f1 (frequency k) = Num 300" "maxAmplitude f2 (frequency k) = Num 300"
         "maxAmplitude f3 (frequency k) = Num 250" "maxAmplitude f4 (frequency k) = Num 200"
      by (auto simp: map_eq_Cons_conv)
    show ?thesis
      using assms h(1-3) m unfolding fs
      by (simp add: step Let_def js_ge_def js_sub_def)
  qed
  have nofloor: "currentThreshold (state_of (snd (Kick_calc spectrum k))) = Num (c - decay k)
            \<and> c - decay k < threshold k"
    if h: "currentThreshold k = Num c" "c \<le> threshold k" "0 < decay k"
       "maxAmplitude spectrum (frequency k) = Num v" "v < threshold k"
    using h by (simp add: step [OF assms] js_ge_def js_sub_def)
  show ?thesis
  proof (intro conjI)
    show "(threshold k = 230 \<and> decay k = 5 \<and> currentThreshold k = Num 230
        \<and> map (\<lambda>f. maxAmplitude f (frequency k)) fs = [Num 300, Num 300, Num 250, Num 200]
        \<longrightarrow> Kick_frames fs k =
              [(True, Num 300), (True, Num 300), (False, Num 295), (False, Num 290)])"
      using trace by simp
    show "(currentThreshold k = Num c \<and> c \<le> threshold k \<and> 0 < decay k
        \<and> maxAmplitude spectrum (frequency k) = Num v \<and> v < threshold k
        \<longrightarrow> currentThreshold (state_of (snd (Kick_calc spectrum k))) = Num (c - decay k)
            \<and> c - decay k < threshold k)"
      using nofloor by simp
  qed (rule general)
qed

lemma maxAmplitude_examples:
  "maxAmplitude [0, 0, 0, 300] (Band 3 10) = Num 300"
  "maxAmplitude [0, 0, 0, 10, 300] (Band 3 10) = Num 300"
  "maxAmplitude [250, 250, 250, 250] (Band 3 10) = Num 250"
  "maxAmplitude [0, 0, 0, 200, 100] (Band 3 10) = Num 200"
  by (simp_all add: maxAmplitude_loop.simps js_gt_def js_index_def)

theorem Kick_calc_adaptive_threshold_witness:
  "isOn firstKicks \<and> onKick firstKicks \<noteq> Some Throws \<and> offKick firstKicks \<noteq> Some Throws
   \<and> Kick_calc [0, 0, 0, 300] firstKicks =
       ([CbOnKick (Num 300)], Normal (firstKicks\<lparr>currentThreshold := Num 300, isKick := True\<rparr>))
   \<and> Kick_frames [[0, 0, 0, 300], [0, 0, 0, 10, 300], [250, 250, 250, 250], [0, 0, 0, 200, 100]]
         firstKicks =
       [(True, Num 300), (True, Num 300), (False, Num 295), (False, Num 290)]
   \<and> currentThreshold (state_of (snd (Kick_calc [0, 0, 0, 0] firstKicks))) = Num 225
   \<and> threshold firstKicks = 230"
proof -
  have a: "isOn firstKicks" "onKick firstKicks \<noteq> Some Throws" "offKick firstKicks \<noteq> Some Throws"
    by (simp_all add: firstKicks_def Kick_on_def Kick_new_def)
  have f: "frequency firstKicks = Band 3 10" "threshold firstKicks = 230" "decay firstKicks = 5"
    "currentThreshold firstKicks = Num 230" "onKick firstKicks = Some Returns"
    by (simp_all add: firstKicks_def Kick_on_def Kick_new_def)
  note th = Kick_calc_adaptive_threshold [OF a, of "[0, 0, 0, 300]"
      "[[0, 0, 0, 300], [0, 0, 0, 10, 300], [250, 250, 250, 250], [0, 0, 0, 200, 100]]"]
  have first: "Kick_calc [0, 0, 0, 300] firstKicks =
       ([CbOnKick (Num 300)], Normal (firstKicks\<lparr>currentThreshold := Num 300, isKick := True\<rparr>))"
    using th by (simp add: f maxAmplitude_examples js_ge_def Let_def del: maxAmplitude.simps)
  have trace: "Kick_frames [[0, 0, 0, 300], [0, 0, 0, 10, 300], [250, 250, 250, 250], [0, 0, 0, 200, 100]]
         firstKicks =
       [(True, Num 300), (True, Num 300), (False, Num 295), (False, Num 290)]"
    using th by (simp add: f maxAmplitude_examples del: maxAmplitude.simps Kick_frames.simps)
  have z: "maxAmplitude [0, 0, 0, 0] (Band 3 10) = Num 0"
    by (simp add: maxAmplitude_loop.simps js_gt_def js_index_def)
  have below: "currentThreshold (state_of (snd (Kick_calc [0, 0, 0, 0] firstKicks))) = Num 225"
    using Kick_calc_adaptive_threshold [OF a, of "[0, 0, 0, 0]" "[]" 230 0]
    by (simp add: f z del: maxAmplitude.simps Kick_frames.simps)
  show ?thesis using a first trace below f(2) by simp
qed












section \<open>Properties of the metronome\<close>

lemma Beat_calc_returns:
  assumes "onBeat b \<noteq> Some Throws"
  shows "Beat_calc t bd b =
     (if t = 0 then ([], Normal b)
      else if currentTime b + bd * factor b \<le> t
      then ((if beatOn b \<and> onBeat b \<noteq> None then [CbOnBeat] else []),
            Normal (b\<lparr>currentTime := currentTime b + bd * factor b\<rparr>))
      else ([], Normal b))"
  using assms by (simp add: Beat_calc_def Let_def invoke_fst)


text \<open>
  Claim C2. A Beat whose callback returns, on a frame at playback time \<open>t\<close>: when
  \<open>t = 0\<close> nothing changes and nothing is called; otherwise, with the interval
  \<open>beatDuration * factor\<close>, when \<open>t \<ge> nextFireTime + interval\<close> the accumulator advances by
  exactly one interval and the beat fires (\<open>onBeat\<close> is called when the Beat is enabled and
  has the callback), once, also when two intervals or more have elapsed, after which the
  Beat is still due; when \<open>t < nextFireTime + interval\<close> nothing changes.
\<close>

theorem Beat_calc_single_step:
  assumes "onBeat b \<noteq> Some Throws"
  shows
    "(t = 0 \<longrightarrow> Beat_calc t bd b = ([], Normal b))
     \<and> (t \<noteq> 0 \<and> currentTime b + bd * factor b \<le> t \<longrightarrow>
          Beat_calc t bd b =
            ((if beatOn b \<and> onBeat b \<noteq> None then [CbOnBeat] else []),
             Normal (b\<lparr>currentTime := currentTime b + bd * factor b\<rparr>)))
     \<and> (t \<noteq> 0 \<and> t < currentTime b + bd * factor b \<longrightarrow> Beat_calc t bd b = ([], Normal b))
     \<and> (t \<noteq> 0 \<and> currentTime b + 2 * (bd * factor b) \<le> t \<and> 0 < bd * factor b \<longrightarrow>
          currentTime (state_of (snd (Beat_calc t bd b))) = currentTime b + bd * factor b
          \<and> currentTime (state_of (snd (Beat_calc t bd b))) + bd * factor b \<le> t
          \<and> length (fst (Beat_calc t bd b)) \<le> 1)"
  by (simp add: Beat_calc_returns [OF assms])

theorem Beat_calc_single_step_witness:
  "onBeat (Beat_on (Beat_new \<lparr>cfg_factor = Some 1, cfg_onBeat = Some Returns\<rparr>)) \<noteq> Some Throws
   \<and> Beat_calc 0 (1 / 2) (Beat_on (Beat_new \<lparr>cfg_factor = Some 1, cfg_onBeat = Some Returns\<rparr>))
       = ([], Normal (Beat_on (Beat_new \<lparr>cfg_factor = Some 1, cfg_onBeat = Some Returns\<rparr>)))
   \<and> Beat_calc (3 / 2) (1 / 2) (Beat_on (Beat_new \<lparr>cfg_factor = Some 1, cfg_onBeat = Some Returns\<rparr>))
       = ([CbOnBeat],
          Normal \<lparr>factor = 1, onBeat = Some Returns, beatOn = True, currentTime = 1 / 2\<rparr>)
   \<and> Beat_calc (1 / 4) (1 / 2) (Beat_on (Beat_new \<lparr>cfg_factor = Some 1, cfg_onBeat = Some Returns\<rparr>))
       = ([], Normal (Beat_on (Beat_new \<lparr>cfg_factor = Some 1, cfg_onBeat = Some Returns\<rparr>)))"
proof -
  let ?b = "Beat_on (Beat_new \<lparr>cfg_factor = Some 1, cfg_onBeat = Some Returns\<rparr>)"
  have b: "?b = \<lparr>factor = 1, onBeat = Some Returns, beatOn = True, currentTime = 0\<rparr>"
    by (simp add: Beat_on_def Beat_new_def)
  have h: "onBeat ?b \<noteq> Some Throws" by (simp add: b)
  show ?thesis
    using h Beat_calc_single_step [OF h, of 0 "1 / 2"]
      Beat_calc_single_step [OF h, of "3 / 2" "1 / 2"]
      Beat_calc_single_step [OF h, of "1 / 4" "1 / 2"]
    by (simp add: b)
qed








section \<open>Properties of the sections\<close>



























section \<open>Properties of the playback clock\<close>

lemma onUpdate_clock:
  assumes "onUpdate now f s = (es, r)"
  shows "startTime (state_of r) = startTime s \<and> pauseTime (state_of r) = pauseTime s
         \<and> isPlaying (state_of r) = isPlaying s"
  using assms
  by (auto simp: onUpdate_def Let_def requestAnimationFrame_def
        split: prod.splits completion.splits)

lemma cancel_req_clock:
  "startTime (cancel_req s) = startTime s \<and> pauseTime (cancel_req s) = pauseTime s
   \<and> isPlaying (cancel_req s) = isPlaying s"
  by (simp add: cancel_req_def split: option.splits)

lemma play_clock:
  assumes "play off now f s = (es, Normal s')"
  shows "isPlaying s' \<and> pauseTime s' = pauseTime s
         \<and> startTime s' = now - (pauseTime s - startTime s + off)"
proof -
  obtain r where u: "onUpdate now f (cancel_req s) = (es, r)" and n: "is_Normal r"
    using assms by (auto simp: play_def split: prod.splits completion.splits)
  from n obtain s1 where r: "r = Normal s1" by (cases r) auto
  have s': "s' = s1\<lparr>isPlaying := True, startTime := now - (pauseTime s1 - startTime s1 + off),
      sourceNode := True\<rparr>"
    using assms u r by (simp add: play_def Let_def)
  show ?thesis
    using onUpdate_clock [OF u] cancel_req_clock [of s] by (simp add: s' r)
qed

lemma pause_clock:
  "\<not> isPlaying (pause now s) \<and> pauseTime (pause now s) = now
   \<and> startTime (pause now s) = startTime s"
  by (simp add: pause_def cancel_req_clock)

text \<open>
  Claim C4. On a clock that starts at zero, \<open>play(0)\<close>, then \<open>d\<close> seconds of wall-clock
  time, \<open>pause()\<close>, then \<open>w\<close> more seconds, then \<open>play(0)\<close> (the calls returning): the elapsed
  time is \<open>d\<close> at the pause, throughout the pause and immediately after the resume. The
  claim is the case \<open>d = 2\<close>, \<open>w = 5\<close>: 2 seconds, not 7 and not 0.
\<close>

theorem resume_preserves_elapsed:
  assumes "startTime s = 0" and "pauseTime s = 0"
    and "play 0 c f1 s = (e1, Normal s1)"
    and "play 0 (c + d + w) f2 (pause (c + d) s1) = (e2, Normal s3)"
  shows "Sound_time (c + d) s1 = d
         \<and> Sound_time (c + d + w) (pause (c + d) s1) = d
         \<and> isPlaying s3 \<and> Sound_time (c + d + w) s3 = d"
  using play_clock [OF assms(3)] play_clock [OF assms(4)] pause_clock [of "c + d" s1] assms(1,2)
  by (simp add: Sound_time_def)

lemma engine_eval:
  "engine = \<lparr> bpm = 100, beatDuration = 3 / 5, offsetTime = 1,
       sections = [\<lparr>label = ''firstChangeKick'', kind = OnceAt 45, callback = Some Returns,
                     called = False\<rparr>],
       kicks = [\<lparr>frequency = Band 3 10, threshold = 230, decay = 5, onKick = Some Returns,
                 offKick = None, isOn = False, isKick = False, currentThreshold = Num 230\<rparr>],
       beats = [],
       startTime = 0, pauseTime = 0, isPlaying = False,
       req = None, sourceNode = False, pending = [], next_handle = 1 \<rparr>"
  by (simp add: engine_def onceAt_def register_def createKick_def Kick_new_def Sound_new_def)

lemma engine_play:
  "play 0 10 [] engine = ([], Normal (engine\<lparr>req := Some 1, pending := [1], next_handle := 2,
      isPlaying := True, startTime := 10, sourceNode := True\<rparr>))"
  by (simp add: engine_eval play_def onUpdate_def cancel_req_def requestAnimationFrame_def
      section_step_def condition_def Sound_time_def Kick_calc_def Let_def)

lemma engine_resume:
  "play 0 17 [] (pause 12 (engine\<lparr>req := Some 1, pending := [1], next_handle := 2,
      isPlaying := True, startTime := 10, sourceNode := True\<rparr>))
   = ([], Normal (engine\<lparr>req := Some 2, pending := [2], next_handle := 3,
      isPlaying := True, startTime := 15, pauseTime := 12, sourceNode := True\<rparr>))"
  by (simp add: engine_eval play_def pause_def onUpdate_def cancel_req_def
      requestAnimationFrame_def section_step_def condition_def Sound_time_def Kick_calc_def
      Let_def)

theorem resume_preserves_elapsed_witness:
  "startTime engine = 0 \<and> pauseTime engine = 0
   \<and> is_Normal (snd (play 0 10 [] engine))
   \<and> is_Normal (snd (play 0 17 [] (pause 12 (state_of (snd (play 0 10 [] engine))))))
   \<and> Sound_time 12 (state_of (snd (play 0 10 [] engine))) = 2
   \<and> Sound_time 17 (pause 12 (state_of (snd (play 0 10 [] engine)))) = 2
   \<and> Sound_time 17
        (state_of (snd (play 0 17 [] (pause 12 (state_of (snd (play 0 10 [] engine))))))) = 2"
proof -
  let ?s1 = "engine\<lparr>req := Some 1, pending := [1], next_handle := 2,
      isPlaying := True, startTime := 10, sourceNode := True\<rparr>"
  let ?s3 = "engine\<lparr>req := Some 2, pending := [2], next_handle := 3,
      isPlaying := True, startTime := 15, pauseTime := 12, sourceNode := True\<rparr>"
  have z: "startTime engine = 0" "pauseTime engine = 0"
    by (simp_all add: engine_eval)
  have p1: "play 0 10 [] engine = ([], Normal ?s1)"
    by (rule engine_play)
  have p2: "play 0 (10 + 2 + 5) [] (pause (10 + 2) ?s1) = ([], Normal ?s3)"
    using engine_resume by simp
  show ?thesis
    using resume_preserves_elapsed [OF z p1 p2] z p1 engine_resume by simp
qed

lemma play_elapsed:
  assumes "play off now f s = (es, Normal s')"
  shows "Sound_time now s' = pauseTime s - startTime s + off"
  using play_clock [OF assms] by (simp add: Sound_time_def)

lemma engine_resume_16:
  "play 0 16 [] (pause 15 (engine\<lparr>req := Some 1, pending := [1], next_handle := 2,
      isPlaying := True, startTime := 10, sourceNode := True\<rparr>))
   = ([], Normal (engine\<lparr>req := Some 2, pending := [2], next_handle := 3,
      isPlaying := True, startTime := 11, pauseTime := 15, sourceNode := True\<rparr>))"
  by (simp add: engine_eval play_def pause_def onUpdate_def cancel_req_def
      requestAnimationFrame_def section_step_def condition_def Sound_time_def Kick_calc_def
      Let_def)

lemma engine_seek:
  "play 1 20 [] (engine\<lparr>req := Some 2, pending := [2], next_handle := 3,
      isPlaying := True, startTime := 11, pauseTime := 15, sourceNode := True\<rparr>)
   = ([], Normal (engine\<lparr>req := Some 3, pending := [3], next_handle := 4,
      isPlaying := True, startTime := 15, pauseTime := 15, sourceNode := True\<rparr>))"
  by (simp add: engine_eval play_def onUpdate_def cancel_req_def
      requestAnimationFrame_def section_step_def condition_def Sound_time_def Kick_calc_def
      Let_def)

text \<open>
  Claim C5 asks that \<open>play(offset)\<close> on a playing clock of elapsed time \<open>e\<close> leaves the
  elapsed time \<open>e + offset\<close>. \<open>play\<close> computes the new start from
  \<open>pauseTime - startTime + offset\<close> whether the clock is playing or not (lemma
  \<open>play_elapsed\<close>), and while playing \<open>pauseTime\<close> is the reading at the last pause. After
  \<open>play(0)\<close> at 10, \<open>pause()\<close> at 15 and \<open>play(0)\<close> at 16 the clock is playing; at 20 its
  elapsed time is 9, and \<open>play(1)\<close> there leaves 5 where the claim says 10.
\<close>

theorem play_while_playing_stale_elapsed:
  "isPlaying (state_of (snd (play 0 16 [] (pause 15 (state_of (snd (play 0 10 [] engine)))))))
   \<and> Sound_time 20
        (state_of (snd (play 0 16 [] (pause 15 (state_of (snd (play 0 10 [] engine))))))) = 9
   \<and> Sound_time 20
        (state_of (snd (play 1 20 []
           (state_of (snd (play 0 16 [] (pause 15 (state_of (snd (play 0 10 [] engine)))))))))) = 5"
  by (simp only: engine_play engine_resume_16 engine_seek snd_conv state_of.simps)
    (simp add: Sound_time_def)

text \<open>
  What holds of \<open>pause\<close>: a paused clock does not move with the wall clock, and a second
  \<open>pause()\<close> finds no pending request to cancel and no source node to stop.
\<close>

lemma paused_time_constant:
  "\<not> isPlaying s \<Longrightarrow> Sound_time now s = Sound_time now' s"
  by (simp add: Sound_time_def)

lemma pause_twice_scheduler:
  "pending (pause n2 (pause n1 s)) = pending (pause n1 s)
   \<and> req (pause n2 (pause n1 s)) = req (pause n1 s)
   \<and> sourceNode (pause n2 (pause n1 s)) = sourceNode (pause n1 s)
   \<and> isPlaying (pause n2 (pause n1 s)) = isPlaying (pause n1 s)"
  by (simp add: pause_def cancel_req_def split: option.splits)

text \<open>
  Claim C7 asks that the elapsed time of a paused clock stays the value captured at the
  first pause however many further \<open>pause()\<close> calls occur. \<open>pause\<close> stores the clock reading
  whether the engine is playing or not: after \<open>play(0)\<close> at 10 and \<open>pause()\<close> at 12 the elapsed
  time is 2 and is still 2 at 17, but a second \<open>pause()\<close> at 17 makes it 7.
\<close>

theorem pause_twice_moves_elapsed:
  "Sound_time 12 (state_of (snd (play 0 10 [] engine))) = 2
   \<and> Sound_time 17 (pause 12 (state_of (snd (play 0 10 [] engine)))) = 2
   \<and> Sound_time 17 (pause 17 (pause 12 (state_of (snd (play 0 10 [] engine))))) = 7"
  by (simp only: engine_play snd_conv state_of.simps)
    (simp add: Sound_time_def pause_def cancel_req_def)

section \<open>Registration of detectors\<close>

text \<open>
  Claim C8 asks that a frequency range with start above end, or a factor of 0 or less, is
  rejected at registration. Neither \<open>createKick\<close> nor \<open>createBeat\<close> nor the constructors
  check anything: the range \<open>[10, 3]\<close> and the factors \<open>-1\<close> and \<open>0\<close> give registered
  detectors that keep these values.
\<close>

theorem registration_rejects_invalid_counterexample:
  "snd (createKick \<lparr> cfg_frequency = Some (Band 10 3), cfg_threshold = None, cfg_decay = None,
                       cfg_onKick = None, cfg_offKick = None \<rparr> (Sound_new 100 1))
     = (Sound_new 100 1)
         \<lparr>kicks := [\<lparr>frequency = Band 10 3, threshold = 3 / 10, decay = 2 / 100,
                     onKick = None, offKick = None, isOn = False, isKick = False,
                     currentThreshold = Num (3 / 10)\<rparr>]\<rparr>
   \<and> snd (createBeat \<lparr>cfg_factor = Some (- 1), cfg_onBeat = None\<rparr> (Sound_new 100 1))
     = (Sound_new 100 1)
         \<lparr>beats := [\<lparr>factor = - 1, onBeat = None, beatOn = False, currentTime = 0\<rparr>]\<rparr>
   \<and> snd (createBeat \<lparr>cfg_factor = Some 0, cfg_onBeat = None\<rparr> (Sound_new 100 1))
     = (Sound_new 100 1)
         \<lparr>beats := [\<lparr>factor = 0, onBeat = None, beatOn = False, currentTime = 0\<rparr>]\<rparr>"
  by (simp add: createKick_def createBeat_def Kick_new_def Beat_new_def Sound_new_def Let_def)

text \<open>
  Claim C8, amended. \<open>createKick\<close> and \<open>createBeat\<close> accept every configuration: each
  appends one detector built by the constructor and returns it, and a frequency selector
  or a factor that is given is stored as it is.
\<close>

theorem registration_accepts_any_configuration:
  "createKick c s = (length (kicks s), s\<lparr>kicks := kicks s @ [Kick_new c]\<rparr>)
   \<and> (cfg_frequency c = Some fr \<longrightarrow> frequency (Kick_new c) = fr)
   \<and> createBeat c' s = (length (beats s), s\<lparr>beats := beats s @ [Beat_new c']\<rparr>)
   \<and> (cfg_factor c' = Some x \<longrightarrow> factor (Beat_new c') = x)"
  by (simp add: createKick_def createBeat_def Kick_new_def Beat_new_def Let_def)

theorem registration_accepts_any_configuration_witness:
  "frequency (last (kicks (snd (createKick
       \<lparr> cfg_frequency = Some (Band 10 3), cfg_threshold = None, cfg_decay = None,
          cfg_onKick = None, cfg_offKick = None \<rparr> engine)))) = Band 10 3
   \<and> length (kicks (snd (createKick
       \<lparr> cfg_frequency = Some (Band 10 3), cfg_threshold = None, cfg_decay = None,
          cfg_onKick = None, cfg_offKick = None \<rparr> engine))) = 2
   \<and> factor (last (beats (snd (createBeat \<lparr>cfg_factor = Some (- 1), cfg_onBeat = None\<rparr> engine))))
       = - 1"
  using registration_accepts_any_configuration
    [of "\<lparr> cfg_frequency = Some (Band 10 3), cfg_threshold = None, cfg_decay = None,
          cfg_onKick = None, cfg_offKick = None \<rparr>" engine "Band 10 3"
        "\<lparr>cfg_factor = Some (- 1), cfg_onBeat = None\<rparr>" "- 1"]
  by (simp add: engine_eval)

section \<open>Exceptions in the frame pass\<close>

lemma each_stops:
  assumes "each g xs = (e0, Normal xs')" and "g x = (e, Abrupt x')"
  shows "each g (xs @ x # ys) = (e0 @ e, Abrupt (xs' @ x' # ys))"
  using assms(1)
proof (induction xs arbitrary: e0 xs')
  case Nil
  then show ?case using assms(2) by simp
next
  case (Cons a xs)
  obtain ea ra where a: "g a = (ea, ra)" by (cases "g a")
  obtain er rr where r: "each g xs = (er, rr)" by (cases "each g xs")
  from Cons.prems a r obtain a' xs1 where n: "ra = Normal a'" "rr = Normal xs1"
    and eq: "e0 = ea @ er" "xs' = a' # xs1"
    by (cases ra; cases rr) auto
  have "each g (xs @ x # ys) = (er @ e, Abrupt (xs1 @ x' # ys))"
    using Cons.IH [of er xs1] r n by simp
  then show ?case by (simp add: a n eq)
qed

text \<open>
  Claim C9, amended. An exception thrown by a callback leaves \<open>onUpdate\<close> at once: the
  pass ends abruptly with the events up to and including the failing call, the sections,
  detectors and metronomes after the failing one are untouched and none of their callbacks
  is called, and nothing is reported. The next frame was requested before the first loop
  and stays requested, however the pass ends.
\<close>

theorem onUpdate_exception_propagates:
  "(sections s = xs @ sec # ys
      \<and> each (section_step (Sound_time now s)) xs = (e0, Normal xs')
      \<and> section_step (Sound_time now s) sec = (e, Abrupt sec')
    \<longrightarrow> onUpdate now f s
          = (e0 @ e, Abrupt ((requestAnimationFrame s)\<lparr>sections := xs' @ sec' # ys\<rparr>)))
   \<and> (each (section_step (Sound_time now s)) (sections s) = (e1, Normal secs)
      \<and> kicks s = ks @ k # ks'
      \<and> each (Kick_calc f) ks = (e0, Normal ks1)
      \<and> Kick_calc f k = (e, Abrupt k')
    \<longrightarrow> onUpdate now f s
          = (e1 @ e0 @ e,
             Abrupt ((requestAnimationFrame s)\<lparr>sections := secs, kicks := ks1 @ k' # ks'\<rparr>)))
   \<and> (each (section_step (Sound_time now s)) (sections s) = (e1, Normal secs)
      \<and> each (Kick_calc f) (kicks s) = (e2, Normal ks2)
      \<and> beats s = bs @ b # bs'
      \<and> each (Beat_calc (max 0 (Sound_time now s - offsetTime s)) (beatDuration s)) bs
          = (e0, Normal bs1)
      \<and> Beat_calc (max 0 (Sound_time now s - offsetTime s)) (beatDuration s) b = (e, Abrupt b')
    \<longrightarrow> onUpdate now f s
          = (e1 @ e2 @ e0 @ e,
             Abrupt ((requestAnimationFrame s)
                       \<lparr>sections := secs, kicks := ks2, beats := bs1 @ b' # bs'\<rparr>)))
   \<and> req (state_of (snd (onUpdate now f s))) = Some (next_handle s)
   \<and> pending (state_of (snd (onUpdate now f s))) = pending s @ [next_handle s]"
proof (intro conjI impI)
  assume h: "sections s = xs @ sec # ys
      \<and> each (section_step (Sound_time now s)) xs = (e0, Normal xs')
      \<and> section_step (Sound_time now s) sec = (e, Abrupt sec')"
  then have "each (section_step (Sound_time now s)) (sections s)
      = (e0 @ e, Abrupt (xs' @ sec' # ys))"
    using each_stops [of "section_step (Sound_time now s)" xs e0 xs' sec e sec' ys] by simp
  then show "onUpdate now f s
          = (e0 @ e, Abrupt ((requestAnimationFrame s)\<lparr>sections := xs' @ sec' # ys\<rparr>))"
    by (simp add: onUpdate_def Let_def)
next
  assume h: "each (section_step (Sound_time now s)) (sections s) = (e1, Normal secs)
      \<and> kicks s = ks @ k # ks'
      \<and> each (Kick_calc f) ks = (e0, Normal ks1)
      \<and> Kick_calc f k = (e, Abrupt k')"
  then have "each (Kick_calc f) (kicks s) = (e0 @ e, Abrupt (ks1 @ k' # ks'))"
    using each_stops [of "Kick_calc f" ks e0 ks1 k e k' ks'] by simp
  with h show "onUpdate now f s
          = (e1 @ e0 @ e,
             Abrupt ((requestAnimationFrame s)\<lparr>sections := secs, kicks := ks1 @ k' # ks'\<rparr>))"
    by (simp add: onUpdate_def Let_def)
next
  let ?t = "max 0 (Sound_time now s - offsetTime s)"
  assume h: "each (section_step (Sound_time now s)) (sections s) = (e1, Normal secs)
      \<and> each (Kick_calc f) (kicks s) = (e2, Normal ks2)
      \<and> beats s = bs @ b # bs'
      \<and> each (Beat_calc ?t (beatDuration s)) bs = (e0, Normal bs1)
      \<and> Beat_calc ?t (beatDuration s) b = (e, Abrupt b')"
  then have "each (Beat_calc ?t (beatDuration s)) (beats s) = (e0 @ e, Abrupt (bs1 @ b' # bs'))"
    using each_stops [of "Beat_calc ?t (beatDuration s)" bs e0 bs1 b e b' bs'] by simp
  with h show "onUpdate now f s
          = (e1 @ e2 @ e0 @ e,
             Abrupt ((requestAnimationFrame s)
                       \<lparr>sections := secs, kicks := ks2, beats := bs1 @ b' # bs'\<rparr>))"
    by (simp add: onUpdate_def Let_def)
next
  show "req (state_of (snd (onUpdate now f s))) = Some (next_handle s)"
    by (simp add: onUpdate_def Let_def requestAnimationFrame_def
        split: prod.splits completion.splits)
  show "pending (state_of (snd (onUpdate now f s))) = pending s @ [next_handle s]"
    by (simp add: onUpdate_def Let_def requestAnimationFrame_def
        split: prod.splits completion.splits)
qed

lemma two_sections_eval:
  "two_sections = (Sound_new 100 1)
     \<lparr>sections := [\<lparr>label = ''a'', kind = Before 1, callback = Some Throws, called = False\<rparr>,
                    \<lparr>label = ''b'', kind = Before 1, callback = Some Returns, called = False\<rparr>]\<rparr>"
  by (simp add: two_sections_def before_def register_def Sound_new_def)

text \<open>
  Claim C9 asks that the callbacks after a throwing one are still called in the same pass.
  With two sections whose conditions both hold, the first throwing: the pass ends
  abruptly after the first call and the second callback is not called.
\<close>

theorem onUpdate_isolates_callbacks_counterexample:
  "condition (Sound_time 0 two_sections) (sections two_sections ! 1)
   \<and> callback (sections two_sections ! 1) = Some Returns
   \<and> fst (onUpdate 0 [] two_sections) = [CbSection ''a'']
   \<and> \<not> is_Normal (snd (onUpdate 0 [] two_sections))"
  by (simp add: two_sections_eval Sound_new_def onUpdate_def requestAnimationFrame_def
      Sound_time_def section_step_def condition_def section_callback_def call_user_def)

lemma two_kicks_eval:
  "two_kicks = (Sound_new 100 1)
     \<lparr>sections := [\<lparr>label = ''b'', kind = Before 1, callback = Some Returns, called = False\<rparr>],
      kicks := [\<lparr>frequency = Bin 0, threshold = 1, decay = 1, onKick = Some Throws,
                  offKick = None, isOn = True, isKick = False, currentThreshold = Num 1\<rparr>,
                \<lparr>frequency = Bin 0, threshold = 1, decay = 1, onKick = Some Returns,
                  offKick = None, isOn = True, isKick = False, currentThreshold = Num 1\<rparr>]\<rparr>"
  by (simp add: two_kicks_def Kick_at_def Kick_on_def createKick_def Kick_new_def before_def
      register_def Sound_new_def Let_def)

lemma two_beats_eval:
  "two_beats = (Sound_new 100 1)
     \<lparr>beats := [\<lparr>factor = 1, onBeat = Some Throws, beatOn = True, currentTime = 0\<rparr>,
                 \<lparr>factor = 1, onBeat = Some Returns, beatOn = True, currentTime = 0\<rparr>],
      startTime := 10, isPlaying := True, req := Some 1, sourceNode := True,
      pending := [1], next_handle := 2\<rparr>"
  by (simp add: two_beats_def Beat_at_def Beat_on_def createBeat_def Beat_new_def
      Sound_new_def play_def onUpdate_def cancel_req_def requestAnimationFrame_def
      Sound_time_def Beat_calc_def Let_def)

theorem onUpdate_exception_propagates_witness:
  "onUpdate 0 [] two_sections
     = ([CbSection ''a''], Abrupt (requestAnimationFrame two_sections))
   \<and> onUpdate 0 [5] two_kicks
     = ([CbSection ''b'', CbOnKick (Num 5)],
        Abrupt ((requestAnimationFrame two_kicks)
          \<lparr>kicks := [(kicks two_kicks ! 0)\<lparr>currentThreshold := Num 5\<rparr>, kicks two_kicks ! 1]\<rparr>))
   \<and> onUpdate 12 [] two_beats
     = ([CbOnBeat], Abrupt (requestAnimationFrame two_beats))
   \<and> pending (state_of (snd (onUpdate 0 [] two_sections))) = [1]"
proof -
  let ?sa = "\<lparr>label = ''a'', kind = Before 1, callback = Some Throws, called = False\<rparr>"
  let ?sb = "\<lparr>label = ''b'', kind = Before 1, callback = Some Returns, called = False\<rparr>"
  let ?k0 = "\<lparr>frequency = Bin 0, threshold = 1, decay = 1, onKick = Some Throws,
                  offKick = None, isOn = True, isKick = False, currentThreshold = Num 1\<rparr>"
  let ?k1 = "\<lparr>frequency = Bin 0, threshold = 1, decay = 1, onKick = Some Returns,
                  offKick = None, isOn = True, isKick = False, currentThreshold = Num 1\<rparr>"
  let ?b0 = "\<lparr>factor = 1, onBeat = Some Throws, beatOn = True, currentTime = 0\<rparr>"
  let ?b1 = "\<lparr>factor = 1, onBeat = Some Returns, beatOn = True, currentTime = 0\<rparr>"
  have t0: "Sound_time 0 two_sections = 0" "Sound_time 0 two_kicks = 0"
    "Sound_time 12 two_beats = 2"
    by (simp_all add: two_sections_eval two_kicks_eval two_beats_eval Sound_new_def Sound_time_def)
  have sa: "section_step 0 ?sa = ([CbSection ''a''], Abrupt ?sa)"
    by (simp add: section_step_def condition_def section_callback_def call_user_def)
  have sb: "each (section_step 0) [?sb] = ([CbSection ''b''], Normal [?sb])"
    by (simp add: section_step_def condition_def section_callback_def call_user_def)
  have kc: "Kick_calc [5] ?k0 = ([CbOnKick (Num 5)], Abrupt (?k0\<lparr>currentThreshold := Num 5\<rparr>))"
    by (simp add: Kick_calc_def Kick_detect_def ToInt32_def js_index_def js_ge_def)
  have bc: "Beat_calc 1 (3 / 5) ?b0 = ([CbOnBeat], Abrupt ?b0)"
    by (simp add: Beat_calc_def)
  have 1: "onUpdate 0 [] two_sections
     = ([CbSection ''a''], Abrupt (requestAnimationFrame two_sections))"
    using onUpdate_exception_propagates
      [where s = two_sections and now = 0 and f = "[]" and xs = "[]" and sec = ?sa and ys = "[?sb]"
        and ?e0.0 = "[]" and xs' = "[]" and e = "[CbSection ''a'']" and sec' = ?sa]
      sa t0
    by (simp add: two_sections_eval requestAnimationFrame_def Sound_new_def)
  have 2: "onUpdate 0 [5] two_kicks
     = ([CbSection ''b'', CbOnKick (Num 5)],
        Abrupt ((requestAnimationFrame two_kicks)
          \<lparr>kicks := [(kicks two_kicks ! 0)\<lparr>currentThreshold := Num 5\<rparr>, kicks two_kicks ! 1]\<rparr>))"
    using onUpdate_exception_propagates
      [where s = two_kicks and now = 0 and f = "[5]" and ?e1.0 = "[CbSection ''b'']"
        and secs = "[?sb]" and ks = "[]" and k = ?k0 and ks' = "[?k1]" and ?e0.0 = "[]"
        and ?ks1.0 = "[]" and e = "[CbOnKick (Num 5)]" and k' = "?k0\<lparr>currentThreshold := Num 5\<rparr>"]
      sb kc t0
    by (simp add: two_kicks_eval requestAnimationFrame_def Sound_new_def)
  have 3: "onUpdate 12 [] two_beats = ([CbOnBeat], Abrupt (requestAnimationFrame two_beats))"
    using onUpdate_exception_propagates
      [where s = two_beats and now = 12 and f = "[]" and ?e1.0 = "[]" and secs = "[]"
        and ?e2.0 = "[]" and ?ks2.0 = "[]" and bs = "[]" and b = ?b0 and bs' = "[?b1]"
        and ?e0.0 = "[]" and ?bs1.0 = "[]" and e = "[CbOnBeat]" and b' = ?b0]
      bc t0
    by (simp add: two_beats_eval requestAnimationFrame_def Sound_new_def)
  have 4: "pending (state_of (snd (onUpdate 0 [] two_sections))) = [1]"
    using onUpdate_exception_propagates [where s = two_sections and now = 0 and f = "[]"]
    by (simp add: two_sections_eval Sound_new_def)
  show ?thesis using 1 2 3 4 by blast
qed

end
